theory Spec2Isabelle
  imports Complex_Main "HOL-Library.Sublist"
begin

section \<open>SpeechService: the dual-backend speech orchestrator\<close>

text \<open>
  A shallow embedding of \<^verbatim>\<open>src/services/SpeechService.ts\<close>. The class instance and the
  browser objects it touches (\<^verbatim>\<open>window.speechSynthesis\<close>, the audio element, the object
  URLs, the console, the cloud SDK) form one record, \<open>world\<close>; every method is a function
  on it. Calls that leave the program are appended to a trace, in the order in which the
  code makes them. What the platform answers (the cloud reply, the end or the error of an
  utterance, the events of the audio element) is an input of the model: an \<^verbatim>\<open>async\<close>
  function is cut at each \<^verbatim>\<open>await\<close> that really waits for the platform, and the part
  after it is the function \<open>resume\<close>.
\<close>

subsection \<open>Values\<close>

text \<open>
  A JavaScript number. Only its truthiness is used by the code (\<^verbatim>\<open>x || d\<close>,
  \<^verbatim>\<open>if (x)\<close>): \<^verbatim>\<open>0\<close>, \<^verbatim>\<open>-0\<close> and \<^verbatim>\<open>NaN\<close> are falsy, everything else is
  truthy. Finite values are rationals, which include every finite double.
\<close>

datatype number = NaN | PosInfinity | NegInfinity | Finite rat

fun truthy :: "number \<Rightarrow> bool" where
  "truthy NaN = False"
| "truthy PosInfinity = True"
| "truthy NegInfinity = True"
| "truthy (Finite q) = (q \<noteq> 0)"

text \<open>\<^verbatim>\<open>x || d\<close> for an optional number and for an optional string (\<open>None\<close> is
  \<^verbatim>\<open>undefined\<close>; the empty string is falsy).\<close>

definition or_number :: "number option \<Rightarrow> number \<Rightarrow> number" where
  "or_number x d = (case x of None \<Rightarrow> d | Some n \<Rightarrow> if truthy n then n else d)"

definition or_string :: "string option \<Rightarrow> string \<Rightarrow> string" where
  "or_string x d = (case x of None \<Rightarrow> d | Some s \<Rightarrow> if s \<noteq> [] then s else d)"

text \<open>\<^verbatim>\<open>s.includes(p)\<close>: \<open>p\<close> occurs in \<open>s\<close> as a contiguous block.\<close>

definition str_includes :: "string \<Rightarrow> string \<Rightarrow> bool" where
  "str_includes s p = sublist p s"

subsection \<open>Configuration and options\<close>

text \<open>\<^verbatim>\<open>AzureTTSConfig\<close>, \<^verbatim>\<open>DEFAULT_CONFIG\<close> and \<^verbatim>\<open>SpeechOptions\<close> (lines 8 to 29).\<close>

record AzureTTSConfig =
  subscriptionKey :: string
  region :: string
  language :: string
  voice :: string

definition DEFAULT_CONFIG :: AzureTTSConfig where
  "DEFAULT_CONFIG =
     \<lparr>subscriptionKey = ''your-azure-key'', region = ''eastasia'',
      language = ''zh-CN'', voice = ''zh-CN-XiaoxiaoNeural''\<rparr>"

text \<open>\<^verbatim>\<open>SpeechOptions\<close>; every field is optional. The field \<^verbatim>\<open>voice\<close> is \<open>voiceName\<close>
  here, the name \<open>voice\<close> being taken by the configuration.\<close>

record SpeechOptions =
  rate :: "number option"
  pitch :: "number option"
  volume :: "number option"
  voiceName :: "string option"

text \<open>The default argument \<^verbatim>\<open>options = {}\<close>.\<close>

definition no_options :: SpeechOptions where
  "no_options = \<lparr>rate = None, pitch = None, volume = None, voiceName = None\<rparr>"

subsection \<open>Platform objects\<close>

record SpeechSynthesisVoice =
  name :: string
  lang :: string

text \<open>An utterance; \<open>None\<close> in a field means that the code never assigned it, so that the
  platform's default stays.\<close>

record SpeechSynthesisUtterance =
  utt_text :: string
  utt_lang :: string
  utt_rate :: "number option"
  utt_pitch :: "number option"
  utt_volume :: "number option"
  utt_voice :: "SpeechSynthesisVoice option"

text \<open>\<^verbatim>\<open>window.speechSynthesis\<close>: the installed voices, the utterances handed to
  \<^verbatim>\<open>speak\<close> and not yet finished or cancelled, and whether \<^verbatim>\<open>onvoiceschanged\<close> holds the
  handler of \<open>getAvailableVoices\<close>.\<close>

record SpeechSynthesis =
  voices :: "SpeechSynthesisVoice list"
  pending :: "SpeechSynthesisUtterance list"
  onvoiceschanged :: bool

type_synonym url = nat

text \<open>The audio element. Both handlers are closures over the object URL of the call of
  \<open>playAudioBuffer\<close> that installed them (and over the \<^verbatim>\<open>resolve\<close>/\<^verbatim>\<open>reject\<close> of that
  call's promise, which the URL identifies).\<close>

record HTMLAudioElement =
  src :: "url option"
  onended :: "url option"
  onerror :: "url option"
  paused :: bool
  currentTime :: nat

definition new_Audio :: HTMLAudioElement where
  "new_Audio = \<lparr>src = None, onended = None, onerror = None, paused = True, currentTime = 0\<rparr>"

subsection \<open>Errors, the markup document, the trace\<close>

text \<open>One constructor for each place where the code makes or passes on an error.\<close>

datatype speech_error =
    SynthesisFailed string
  | SdkError string
  | Unsupported
  | UtteranceFailed string
  | AudioFailed
  | PlayFailed string

text \<open>A template literal before its pieces are joined: literal text, an interpolated
  string, an interpolated number.\<close>

datatype part = Lit string | Str string | Num number

record cloud_request =
  req_key :: string
  req_region :: string
  req_voiceName :: string
  req_ssml :: "part list"

datatype log_tag = SpeechFailed | WebSpeechAlsoFailed

datatype settled = Fulfilled | RejectedWith speech_error

datatype effect =
    CloudRequest cloud_request
  | SynthesizerClose
  | CreateObjectURL url
  | RevokeObjectURL url
  | AudioPlay url
  | AudioPause
  | SynthCancel
  | SynthSpeak SpeechSynthesisUtterance
  | ConsoleError log_tag speech_error
  | PlaySettle url settled

text \<open>The instance (\<open>config\<close>, \<open>audio\<close>, \<open>isSpeaking\<close>) and its surroundings:
  \<open>speechSynthesis\<close> is \<open>None\<close> where the browser has no speech synthesis, \<open>sdkFault\<close>
  is the exception that the cloud SDK throws while the request is built, if it throws,
  \<open>nextURL\<close> is the next fresh object URL.\<close>

record world =
  config :: AzureTTSConfig
  audio :: "HTMLAudioElement option"
  isSpeaking :: bool
  speechSynthesis :: "SpeechSynthesis option"
  sdkFault :: "string option"
  nextURL :: url
  trace :: "effect list"

definition emit :: "effect \<Rightarrow> world \<Rightarrow> world" where
  "emit e w = w\<lparr>trace := trace w @ [e]\<rparr>"

text \<open>A fresh instance, \<^verbatim>\<open>new SpeechService(cfg)\<close>, in a browser with the given speech
  synthesis.\<close>

definition new_SpeechService :: "AzureTTSConfig \<Rightarrow> SpeechSynthesis option \<Rightarrow> world" where
  "new_SpeechService cfg ss =
     \<lparr>config = cfg, audio = None, isSpeaking = False, speechSynthesis = ss,
      sdkFault = None, nextURL = 0, trace = []\<rparr>"

subsection \<open>stop, isPlaying\<close>

text \<open>Lines 227 to 247. \<open>stop\<close> pauses and rewinds the audio element if there is one,
  cancels the speech synthesis if there is one and the flag is set, and clears the flag.\<close>

definition stop :: "world \<Rightarrow> world" where
  "stop w =
     (let w1 = (case audio w of
                  None \<Rightarrow> w
                | Some a \<Rightarrow> emit AudioPause (w\<lparr>audio := Some (a\<lparr>paused := True, currentTime := 0\<rparr>)\<rparr>));
          w2 = (case speechSynthesis w1 of
                  None \<Rightarrow> w1
                | Some ss \<Rightarrow>
                    if isSpeaking w1
                    then emit SynthCancel (w1\<lparr>speechSynthesis := Some (ss\<lparr>pending := []\<rparr>)\<rparr>)
                    else w1)
      in w2\<lparr>isSpeaking := False\<rparr>)"

definition isPlaying :: "world \<Rightarrow> bool" where
  "isPlaying w = isSpeaking w"

subsection \<open>synthesizeSpeech\<close>

text \<open>Lines 44 to 101. The template literal of lines 68 to 76, with its line breaks and
  its indentation, is \<open>ssmlText\<close>.\<close>

definition ssmlText :: "AzureTTSConfig \<Rightarrow> string \<Rightarrow> SpeechOptions \<Rightarrow> part list" where
  \<open>ssmlText cfg text options =
     [Lit ''\<newline>          <speak version="1.0" xmlns="http://www.w3.org/2001/10/synthesis" xml:lang="'',
      Str (language cfg),
      Lit ''">\<newline>            <voice name="'',
      Str (or_string (voiceName options) (voice cfg)),
      Lit ''">\<newline>              <prosody rate="'',
      Num (or_number (rate options) (Finite 1)),
      Lit ''" pitch="'',
      Num (or_number (pitch options) (Finite 0)),
      Lit ''%" volume="'',
      Num (or_number (volume options) (Finite 1)),
      Lit ''">\<newline>                '',
      Str text,
      Lit ''\<newline>              </prosody>\<newline>            </voice>\<newline>          </speak>\<newline>        '']\<close>

text \<open>What the call of \<open>synthesizeSpeech\<close> has done when it returns its promise: the
  promise is already fulfilled with \<^verbatim>\<open>null\<close>, or already rejected (the SDK threw inside
  \<^verbatim>\<open>try\<close>), or the request is on its way.\<close>

datatype synthesis = ReturnedNull | RejectedNow speech_error | RequestIssued

definition synthesizeSpeech :: "world \<Rightarrow> string \<Rightarrow> SpeechOptions \<Rightarrow> world \<times> synthesis" where
  "synthesizeSpeech w text options =
     (if subscriptionKey (config w) = ''your-azure-key'' then (w, ReturnedNull)
      else case sdkFault w of
             Some m \<Rightarrow> (w, RejectedNow (SdkError m))
           | None \<Rightarrow>
               (emit (CloudRequest
                        \<lparr>req_key = subscriptionKey (config w), req_region = region (config w),
                         req_voiceName = or_string (voiceName options) (voice (config w)),
                         req_ssml = ssmlText (config w) text options\<rparr>) w,
                RequestIssued))"

text \<open>The answer of the cloud: the result callback with the reason
  \<^verbatim>\<open>SynthesizingAudioCompleted\<close> and the audio data, the result callback with another
  reason and its error details, or the error callback.\<close>

datatype cloud_reply = AudioCompleted "nat list" | OtherReason string | ErrorCallback string

text \<open>The two callbacks given to \<^verbatim>\<open>speakSsmlAsync\<close>: how the promise is settled.\<close>

fun synthesis_callback :: "cloud_reply \<Rightarrow> speech_error + nat list" where
  "synthesis_callback (AudioCompleted audioData) = Inr audioData"
| "synthesis_callback (OtherReason errorDetails) = Inl (SynthesisFailed errorDetails)"
| "synthesis_callback (ErrorCallback e) = Inl (SdkError e)"

subsection \<open>speakWithWebSpeech\<close>

text \<open>Lines 106 to 157. \<open>select_voice\<close> is the block of lines 129 to 139, \<open>if_truthy\<close> the
  guard of the three assignments of lines 124 to 126.\<close>

definition select_voice ::
  "AzureTTSConfig \<Rightarrow> SpeechOptions \<Rightarrow> SpeechSynthesisVoice list \<Rightarrow> SpeechSynthesisVoice option" where
  "select_voice cfg options vs =
     (case voiceName options of
        None \<Rightarrow> None
      | Some v \<Rightarrow>
          if v \<noteq> []
          then find (\<lambda>vc. str_includes (name vc) (or_string (voiceName options) []) \<and>
                          str_includes (lang vc) (language cfg)) vs
          else None)"

definition if_truthy :: "number option \<Rightarrow> number option" where
  "if_truthy x = (case x of None \<Rightarrow> None | Some n \<Rightarrow> if truthy n then Some n else None)"

definition new_utterance ::
  "AzureTTSConfig \<Rightarrow> SpeechSynthesisVoice list \<Rightarrow> string \<Rightarrow> SpeechOptions \<Rightarrow> SpeechSynthesisUtterance" where
  "new_utterance cfg vs text options =
     \<lparr>utt_text = text, utt_lang = language cfg,
      utt_rate = if_truthy (rate options), utt_pitch = if_truthy (pitch options),
      utt_volume = if_truthy (volume options), utt_voice = select_voice cfg options vs\<rparr>"

text \<open>The promise of \<open>speakWithWebSpeech\<close> is rejected at once (\<open>Inl\<close>) or waits for the
  events of the utterance it has started (\<open>Inr\<close>).\<close>

definition speakWithWebSpeech ::
  "world \<Rightarrow> string \<Rightarrow> SpeechOptions \<Rightarrow> world \<times> (speech_error + SpeechSynthesisUtterance)" where
  "speakWithWebSpeech w text options =
     (case speechSynthesis w of
        None \<Rightarrow> (w, Inl Unsupported)
      | Some ss \<Rightarrow>
          (let w1 = stop w;
               utterance = new_utterance (config w1) (voices ss) text options;
               w2 = w1\<lparr>isSpeaking := True\<rparr>
           in (emit (SynthSpeak utterance)
                 (w2\<lparr>speechSynthesis :=
                       map_option (\<lambda>s. s\<lparr>pending := pending s @ [utterance]\<rparr>) (speechSynthesis w2)\<rparr>),
               Inr utterance)))"

subsection \<open>playAudioBuffer and the handlers it installs\<close>

text \<open>Lines 189 to 222.\<close>

definition playAudioBuffer :: "world \<Rightarrow> nat list \<Rightarrow> world" where
  "playAudioBuffer w audioData =
     (let u = nextURL w;
          w1 = emit (CreateObjectURL u) (w\<lparr>nextURL := Suc u\<rparr>);
          a = (case audio w1 of None \<Rightarrow> new_Audio | Some a \<Rightarrow> a);
          a' = a\<lparr>onended := Some u, onerror := Some u, src := Some u, paused := False\<rparr>
      in emit (AudioPlay u) (w1\<lparr>audio := Some a', isSpeaking := True\<rparr>))"

text \<open>The element fires \<^verbatim>\<open>ended\<close>: the handler in \<open>onended\<close> runs.\<close>

definition audio_ended :: "world \<Rightarrow> world" where
  "audio_ended w =
     (case audio w of
        None \<Rightarrow> w
      | Some a \<Rightarrow>
          (case onended a of
             None \<Rightarrow> w
           | Some u \<Rightarrow> emit (PlaySettle u Fulfilled) (emit (RevokeObjectURL u) (w\<lparr>isSpeaking := False\<rparr>))))"

text \<open>The element fires \<^verbatim>\<open>error\<close>: the handler in \<open>onerror\<close> runs.\<close>

definition audio_error :: "world \<Rightarrow> world" where
  "audio_error w =
     (case audio w of
        None \<Rightarrow> w
      | Some a \<Rightarrow>
          (case onerror a of
             None \<Rightarrow> w
           | Some u \<Rightarrow>
               emit (PlaySettle u (RejectedWith AudioFailed))
                 (emit (RevokeObjectURL u) (w\<lparr>isSpeaking := False\<rparr>))))"

text \<open>The promise of \<^verbatim>\<open>this.audio.play()\<close> of the call that made URL \<open>u\<close> is rejected:
  the \<^verbatim>\<open>catch\<close> closure of that call runs.\<close>

definition play_rejected :: "world \<Rightarrow> url \<Rightarrow> string \<Rightarrow> world" where
  "play_rejected w u e =
     emit (PlaySettle u (RejectedWith (PlayFailed e)))
       (emit (RevokeObjectURL u) (w\<lparr>isSpeaking := False\<rparr>))"

subsection \<open>speak\<close>

text \<open>Lines 162 to 184. Where a call of \<open>speak\<close> stands: waiting for the cloud, waiting for the utterance
  started inside \<^verbatim>\<open>try\<close>, waiting for the utterance started inside \<^verbatim>\<open>catch\<close> (with the
  error that \<^verbatim>\<open>catch\<close> caught), or settled.\<close>

datatype speak_task =
    AwaitSynthesize string SpeechOptions
  | AwaitWebSpeechTry SpeechSynthesisUtterance string SpeechOptions
  | AwaitWebSpeechCatch speech_error SpeechSynthesisUtterance
  | Resolved
  | Rejected speech_error

text \<open>The \<^verbatim>\<open>catch (error)\<close> block of \<open>speak\<close>.\<close>

definition speak_catch :: "world \<Rightarrow> speech_error \<Rightarrow> string \<Rightarrow> SpeechOptions \<Rightarrow> world \<times> speak_task" where
  "speak_catch w error text options =
     (let w1 = emit (ConsoleError SpeechFailed error) w
      in case speakWithWebSpeech w1 text options of
           (w2, Inl webSpeechError) \<Rightarrow>
             (emit (ConsoleError WebSpeechAlsoFailed webSpeechError) w2, Rejected error)
         | (w2, Inr utterance) \<Rightarrow> (w2, AwaitWebSpeechCatch error utterance))"

text \<open>The \<^verbatim>\<open>else\<close> branch of the \<^verbatim>\<open>try\<close> block: \<^verbatim>\<open>await this.speakWithWebSpeech\<close>.\<close>

definition speak_local :: "world \<Rightarrow> string \<Rightarrow> SpeechOptions \<Rightarrow> world \<times> speak_task" where
  "speak_local w text options =
     (case speakWithWebSpeech w text options of
        (w1, Inl e) \<Rightarrow> speak_catch w1 e text options
      | (w1, Inr utterance) \<Rightarrow> (w1, AwaitWebSpeechTry utterance text options))"

text \<open>The call itself, up to the first \<^verbatim>\<open>await\<close> that waits for the platform. A promise
  that \<open>synthesizeSpeech\<close> returns already settled is taken up at once: nothing else of this
  program runs in between that could change the instance.\<close>

definition speak :: "world \<Rightarrow> string \<Rightarrow> SpeechOptions \<Rightarrow> world \<times> speak_task" where
  "speak w text options =
     (case synthesizeSpeech w text options of
        (w1, ReturnedNull) \<Rightarrow> speak_local w1 text options
      | (w1, RejectedNow error) \<Rightarrow> speak_catch w1 error text options
      | (w1, RequestIssued) \<Rightarrow> (w1, AwaitSynthesize text options))"

text \<open>What the platform tells a waiting call.\<close>

datatype event = CloudReply cloud_reply | UtteranceEnd | UtteranceError string

text \<open>The handlers \<^verbatim>\<open>utterance.onend\<close> and \<^verbatim>\<open>utterance.onerror\<close> clear the flag; the
  platform has dropped the utterance from its queue.\<close>

definition utterance_done :: "world \<Rightarrow> SpeechSynthesisUtterance \<Rightarrow> world" where
  "utterance_done w utterance =
     w\<lparr>isSpeaking := False,
       speechSynthesis := map_option (\<lambda>s. s\<lparr>pending := remove1 utterance (pending s)\<rparr>) (speechSynthesis w)\<rparr>"

text \<open>The rest of \<open>speak\<close> after an \<^verbatim>\<open>await\<close>. An event that the call does not wait for
  leaves everything as it is.\<close>

fun resume :: "world \<Rightarrow> speak_task \<Rightarrow> event \<Rightarrow> world \<times> speak_task" where
  "resume w (AwaitSynthesize text options) (CloudReply r) =
     (let w1 = emit SynthesizerClose w
      in case synthesis_callback r of
           Inr audioData \<Rightarrow> (playAudioBuffer w1 audioData, Resolved)
         | Inl error \<Rightarrow> speak_catch w1 error text options)"
| "resume w (AwaitWebSpeechTry utterance text options) UtteranceEnd =
     (utterance_done w utterance, Resolved)"
| "resume w (AwaitWebSpeechTry utterance text options) (UtteranceError code) =
     speak_catch (utterance_done w utterance) (UtteranceFailed code) text options"
| "resume w (AwaitWebSpeechCatch error utterance) UtteranceEnd =
     (utterance_done w utterance, Resolved)"
| "resume w (AwaitWebSpeechCatch error utterance) (UtteranceError code) =
     (emit (ConsoleError WebSpeechAlsoFailed (UtteranceFailed code)) (utterance_done w utterance),
      Rejected error)"
| "resume w task _ = (w, task)"

fun run :: "world \<times> speak_task \<Rightarrow> event list \<Rightarrow> world \<times> speak_task" where
  "run st [] = st"
| "run st (e # es) = run (resume (fst st) (snd st) e) es"

subsection \<open>getAvailableVoices\<close>

text \<open>Lines 252 to 284. The promise has no rejecting branch; it stays pending until
  \<^verbatim>\<open>voiceschanged\<close> arrives when no voice is loaded yet.\<close>

datatype voices_promise = VoicesPending | VoicesResolved "string list"

definition chineseVoices :: "SpeechSynthesisVoice list \<Rightarrow> string list" where
  "chineseVoices vs = map name (filter (\<lambda>v. str_includes (lang v) ''zh'') vs)"

definition getAvailableVoices :: "world \<Rightarrow> world \<times> voices_promise" where
  "getAvailableVoices w =
     (case speechSynthesis w of
        None \<Rightarrow> (w, VoicesResolved [])
      | Some ss \<Rightarrow>
          if length (voices ss) = 0
          then (w\<lparr>speechSynthesis := Some (ss\<lparr>onvoiceschanged := True\<rparr>)\<rparr>, VoicesPending)
          else (w, VoicesResolved (chineseVoices (voices ss))))"

text \<open>The platform fires \<^verbatim>\<open>voiceschanged\<close> while the promise is pending: the handler reads
  the voices again and resolves.\<close>

definition voiceschanged :: "world \<Rightarrow> voices_promise \<Rightarrow> voices_promise" where
  "voiceschanged w p =
     (case p of
        VoicesResolved ns \<Rightarrow> VoicesResolved ns
      | VoicesPending \<Rightarrow>
          (case speechSynthesis w of
             None \<Rightarrow> VoicesPending
           | Some ss \<Rightarrow> if onvoiceschanged ss then VoicesResolved (chineseVoices (voices ss)) else VoicesPending))"

text \<open>The platform has loaded its voices (before it fires \<^verbatim>\<open>voiceschanged\<close>).\<close>

definition voices_loaded :: "SpeechSynthesisVoice list \<Rightarrow> world \<Rightarrow> world" where
  "voices_loaded vs w = w\<lparr>speechSynthesis := map_option (\<lambda>s. s\<lparr>voices := vs\<rparr>) (speechSynthesis w)\<rparr>"

subsection \<open>Notions used in the statements\<close>

text \<open>A request to the cloud in the trace; a call that waits for the cloud.\<close>

fun is_CloudRequest :: "effect \<Rightarrow> bool" where
  "is_CloudRequest (CloudRequest q) = True"
| "is_CloudRequest _ = False"

fun awaits_cloud :: "speak_task \<Rightarrow> bool" where
  "awaits_cloud (AwaitSynthesize text options) = True"
| "awaits_cloud _ = False"

text \<open>Two option records that differ only where the code does not look: in falsy numbers.
  Two waiting calls that differ only in such options.\<close>

definition same_effect :: "SpeechOptions \<Rightarrow> SpeechOptions \<Rightarrow> bool" where
  "same_effect a b =
     (if_truthy (rate a) = if_truthy (rate b) \<and> if_truthy (pitch a) = if_truthy (pitch b) \<and>
      if_truthy (volume a) = if_truthy (volume b) \<and> voiceName a = voiceName b)"

fun alike :: "speak_task \<Rightarrow> speak_task \<Rightarrow> bool" where
  "alike (AwaitSynthesize t a) (AwaitSynthesize t' b) = (t = t' \<and> same_effect a b)"
| "alike (AwaitWebSpeechTry u t a) (AwaitWebSpeechTry u' t' b) = (u = u' \<and> t = t' \<and> same_effect a b)"
| "alike k k' = (k = k')"

text \<open>A call that has been rejected.\<close>

fun rejected :: "speak_task \<Rightarrow> bool" where
  "rejected (Rejected e) = True"
| "rejected _ = False"

subsection \<open>Concrete instances\<close>

text \<open>A browser with one Chinese and one English voice, the exported singleton (the
  placeholder key) in it, and an instance that has a real key.\<close>

definition two_voices :: "SpeechSynthesisVoice list" where
  "two_voices = [\<lparr>name = ''Ting-Ting'', lang = ''zh-CN''\<rparr>, \<lparr>name = ''Samantha'', lang = ''en-US''\<rparr>]"

definition browser :: SpeechSynthesis where
  "browser = \<lparr>voices = two_voices, pending = [], onvoiceschanged = False\<rparr>"

definition speechService :: world where
  "speechService = new_SpeechService DEFAULT_CONFIG (Some browser)"

definition keyed_config :: AzureTTSConfig where
  "keyed_config = DEFAULT_CONFIG\<lparr>subscriptionKey := ''0123456789abcdef''\<rparr>"

definition keyedService :: world where
  "keyedService = new_SpeechService keyed_config (Some browser)"

section \<open>Properties\<close>

subsection \<open>What the parts of speak do\<close>

lemma emit_fields [simp]:
  "config (emit e w) = config w" "audio (emit e w) = audio w" "isSpeaking (emit e w) = isSpeaking w"
  "speechSynthesis (emit e w) = speechSynthesis w" "sdkFault (emit e w) = sdkFault w"
  "nextURL (emit e w) = nextURL w" "trace (emit e w) = trace w @ [e]"
  by (simp_all add: emit_def)

lemma stop_fields [simp]:
  "config (stop w) = config w" "sdkFault (stop w) = sdkFault w" "nextURL (stop w) = nextURL w"
  "isSpeaking (stop w) = False"
  by (simp_all add: stop_def Let_def split: option.splits)

lemma stop_speechSynthesis:
  "speechSynthesis (stop w) =
     map_option (\<lambda>ss. if isSpeaking w then ss\<lparr>pending := []\<rparr> else ss) (speechSynthesis w)"
  by (simp add: stop_def Let_def split: option.splits)

lemma stop_trace:
  "trace (stop w) =
     trace w @ (case audio w of None \<Rightarrow> [] | Some a \<Rightarrow> [AudioPause]) @
       (if speechSynthesis w \<noteq> None \<and> isSpeaking w then [SynthCancel] else [])"
  by (simp add: stop_def Let_def split: option.splits)

lemma stop_cloud_requests [simp]:
  "filter is_CloudRequest (trace (stop w)) = filter is_CloudRequest (trace w)"
  by (simp add: stop_trace split: option.splits)

lemma speakWithWebSpeech_None:
  "speechSynthesis w = None \<Longrightarrow> speakWithWebSpeech w text options = (w, Inl Unsupported)"
  by (simp add: speakWithWebSpeech_def)

lemma speakWithWebSpeech_Some:
  assumes "speechSynthesis w = Some ss"
  shows "\<exists>w'. speakWithWebSpeech w text options =
           (w', Inr (new_utterance (config w) (voices ss) text options)) \<and>
         config w' = config w \<and> sdkFault w' = sdkFault w \<and> speechSynthesis w' \<noteq> None \<and>
         isSpeaking w' \<and>
         trace w' = trace (stop w) @ [SynthSpeak (new_utterance (config w) (voices ss) text options)]"
  using assms by (simp add: speakWithWebSpeech_def Let_def stop_speechSynthesis)

lemma speak_catch_None:
  "speechSynthesis w = None \<Longrightarrow>
   speak_catch w e text options =
     (emit (ConsoleError WebSpeechAlsoFailed Unsupported) (emit (ConsoleError SpeechFailed e) w),
      Rejected e)"
  by (simp add: speak_catch_def speakWithWebSpeech_None)

lemma speak_catch_Some:
  assumes "speechSynthesis w = Some ss"
  shows "\<exists>w'. speak_catch w e text options =
           (w', AwaitWebSpeechCatch e (new_utterance (config w) (voices ss) text options)) \<and>
         config w' = config w \<and> sdkFault w' = sdkFault w \<and> speechSynthesis w' \<noteq> None \<and>
         trace w' = trace (stop (emit (ConsoleError SpeechFailed e) w)) @
                      [SynthSpeak (new_utterance (config w) (voices ss) text options)]"
proof -
  have "speechSynthesis (emit (ConsoleError SpeechFailed e) w) = Some ss"
    using assms by simp
  from speakWithWebSpeech_Some [OF this, of "text" options]
  show ?thesis by (auto simp add: speak_catch_def)
qed


lemma utterance_done_fields [simp]:
  "config (utterance_done w u) = config w" "trace (utterance_done w u) = trace w"
  "sdkFault (utterance_done w u) = sdkFault w"
  "(speechSynthesis (utterance_done w u) = None) = (speechSynthesis w = None)"
  by (simp_all add: utterance_done_def)

lemma speak_catch_local:
  "filter is_CloudRequest (trace (fst (speak_catch w e text options))) = filter is_CloudRequest (trace w) \<and>
   \<not> awaits_cloud (snd (speak_catch w e text options))"
proof (cases "speechSynthesis w")
  case None
  then show ?thesis by (simp add: speak_catch_None)
next
  case (Some ss)
  from speak_catch_Some [OF this, of e "text" options] show ?thesis by auto
qed

lemma speak_local_local:
  "filter is_CloudRequest (trace (fst (speak_local w text options))) = filter is_CloudRequest (trace w) \<and>
   \<not> awaits_cloud (snd (speak_local w text options))"
proof (cases "speechSynthesis w")
  case None
  then show ?thesis by (simp add: speak_local_def speakWithWebSpeech_None speak_catch_local)
next
  case (Some ss)
  from speakWithWebSpeech_Some [OF this, of "text" options] show ?thesis
    by (auto simp add: speak_local_def)
qed

lemma resume_local:
  assumes "\<not> awaits_cloud k"
  shows "filter is_CloudRequest (trace (fst (resume w k e))) = filter is_CloudRequest (trace w) \<and>
         \<not> awaits_cloud (snd (resume w k e))"
  using assms by (cases k; cases e) (simp_all add: speak_catch_local)

lemma run_local:
  "\<not> awaits_cloud (snd st) \<Longrightarrow>
   filter is_CloudRequest (trace (fst (run st es))) = filter is_CloudRequest (trace (fst st))"
proof (induction es arbitrary: st)
  case Nil
  then show ?case by simp
next
  case (Cons e es)
  from resume_local [OF Cons.prems, of "fst st" e]
  have a: "filter is_CloudRequest (trace (fst (resume (fst st) (snd st) e))) =
           filter is_CloudRequest (trace (fst st))"
    and b: "\<not> awaits_cloud (snd (resume (fst st) (snd st) e))" by simp_all
  from Cons.IH [OF b] a show ?case by simp
qed

lemma speak_unconfigured:
  "subscriptionKey (config w) = ''your-azure-key'' \<Longrightarrow> speak w text options = speak_local w text options"
  by (simp add: speak_def synthesizeSpeech_def)

lemma speak_configured:
  assumes "subscriptionKey (config w) \<noteq> ''your-azure-key''" "sdkFault w = None"
  shows "speak w text options =
     (emit (CloudRequest
              \<lparr>req_key = subscriptionKey (config w), req_region = region (config w),
               req_voiceName = or_string (voiceName options) (voice (config w)),
               req_ssml = ssmlText (config w) text options\<rparr>) w,
      AwaitSynthesize text options)"
  using assms by (simp add: speak_def synthesizeSpeech_def)

subsection \<open>stop\<close>

text \<open>
  C7. \<open>stop\<close> has no failing branch: the source contains no \<^verbatim>\<open>throw\<close> and calls only
  \<^verbatim>\<open>pause\<close>, the setter of \<^verbatim>\<open>currentTime\<close> and \<^verbatim>\<open>cancel\<close>, so it is a total
  function on the world. After one call and after a repeated call \<open>isPlaying\<close> is false.
  When nothing is playing, \<open>stop\<close> cancels nothing and leaves the speech synthesis as it
  is, and on an instance that has never played cloud audio it changes nothing at all.
\<close>

theorem stop_safe:
  "isPlaying (stop w) = False \<and>
   isPlaying (stop (stop w)) = False \<and>
   (\<not> isPlaying w \<longrightarrow>
      speechSynthesis (stop w) = speechSynthesis w \<and>
      filter (\<lambda>e. e = SynthCancel) (trace (stop w)) = filter (\<lambda>e. e = SynthCancel) (trace w)) \<and>
   (\<not> isPlaying w \<and> audio w = None \<longrightarrow> stop w = w)"
  by (simp add: stop_def isPlaying_def emit_def Let_def split: option.splits)

theorem stop_safe_witness:
  "\<not> isPlaying (new_SpeechService DEFAULT_CONFIG None) \<and>
   audio (new_SpeechService DEFAULT_CONFIG None) = None \<and>
   stop (new_SpeechService DEFAULT_CONFIG None) = new_SpeechService DEFAULT_CONFIG None \<and>
   isPlaying (stop (stop (new_SpeechService DEFAULT_CONFIG None))) = False"
  using stop_safe [of "new_SpeechService DEFAULT_CONFIG None"]
  by (simp add: new_SpeechService_def isPlaying_def)

subsection \<open>The markup document\<close>

text \<open>
  C8. An instance whose configuration is the default one with a real key, called without
  options, sends the document below: voice \<open>zh-CN-XiaoxiaoNeural\<close> (also as the voice of
  the speech configuration), rate 1, pitch 0 followed by the per cent sign, volume 1. A
  voice given in the options (a non-empty name; the empty string is falsy for
  \<^verbatim>\<open>||\<close>) takes the place of the default in the voice element and in the speech
  configuration.
\<close>

theorem default_markup:
  assumes "k \<noteq> ''your-azure-key''"
      and "config w = DEFAULT_CONFIG\<lparr>subscriptionKey := k\<rparr>"
      and "sdkFault w = None"
      and "v \<noteq> []"
  shows \<open>speak w text no_options =
     (emit (CloudRequest
        \<lparr>req_key = k, req_region = ''eastasia'', req_voiceName = ''zh-CN-XiaoxiaoNeural'',
         req_ssml =
           [Lit ''\<newline>          <speak version="1.0" xmlns="http://www.w3.org/2001/10/synthesis" xml:lang="'',
            Str ''zh-CN'',
            Lit ''">\<newline>            <voice name="'',
            Str ''zh-CN-XiaoxiaoNeural'',
            Lit ''">\<newline>              <prosody rate="'',
            Num (Finite 1),
            Lit ''" pitch="'',
            Num (Finite 0),
            Lit ''%" volume="'',
            Num (Finite 1),
            Lit ''">\<newline>                '',
            Str text,
            Lit ''\<newline>              </prosody>\<newline>            </voice>\<newline>          </speak>\<newline>        '']\<rparr>) w,
      AwaitSynthesize text no_options)
   \<and> speak w text (options\<lparr>voiceName := Some v\<rparr>) =
       (emit (CloudRequest
          \<lparr>req_key = k, req_region = ''eastasia'', req_voiceName = v,
           req_ssml = ssmlText (config w) text (options\<lparr>voiceName := Some v\<rparr>)\<rparr>) w,
        AwaitSynthesize text (options\<lparr>voiceName := Some v\<rparr>))
   \<and> take 4 (ssmlText (config w) text (options\<lparr>voiceName := Some v\<rparr>)) =
       [Lit ''\<newline>          <speak version="1.0" xmlns="http://www.w3.org/2001/10/synthesis" xml:lang="'',
        Str ''zh-CN'',
        Lit ''">\<newline>            <voice name="'',
        Str v]\<close>
  using assms
  by (simp add: speak_configured ssmlText_def DEFAULT_CONFIG_def no_options_def or_string_def or_number_def)

theorem default_markup_witness:
  "''0123456789abcdef'' \<noteq> ''your-azure-key'' \<and>
   config keyedService = DEFAULT_CONFIG\<lparr>subscriptionKey := ''0123456789abcdef''\<rparr> \<and>
   sdkFault keyedService = None \<and> ''zh-CN-YunxiNeural'' \<noteq> [] \<and>
   snd (speak keyedService ''ni hao'' no_options) = AwaitSynthesize ''ni hao'' no_options \<and>
   ssmlText (config keyedService) ''ni hao'' (no_options\<lparr>voiceName := Some ''zh-CN-YunxiNeural''\<rparr>) ! 3 =
     Str ''zh-CN-YunxiNeural''"
proof -
  have h: "''0123456789abcdef'' \<noteq> ''your-azure-key''"
    "config keyedService = DEFAULT_CONFIG\<lparr>subscriptionKey := ''0123456789abcdef''\<rparr>"
    "sdkFault keyedService = None" "''zh-CN-YunxiNeural'' \<noteq> []"
    by (simp_all add: keyedService_def keyed_config_def new_SpeechService_def)
  note t = default_markup [OF h, of "''ni hao''" no_options]
  have a: "snd (speak keyedService ''ni hao'' no_options) = AwaitSynthesize ''ni hao'' no_options"
    using t by simp
  have "take 4 (ssmlText (config keyedService) ''ni hao''
            (no_options\<lparr>voiceName := Some ''zh-CN-YunxiNeural''\<rparr>)) ! 3 = Str ''zh-CN-YunxiNeural''"
    using t by simp
  then have b: "ssmlText (config keyedService) ''ni hao''
       (no_options\<lparr>voiceName := Some ''zh-CN-YunxiNeural''\<rparr>) ! 3 = Str ''zh-CN-YunxiNeural''"
    by simp
  from h a b show ?thesis by (intro conjI)
qed

subsection \<open>Zero options\<close>

lemma or_number_if_truthy: "or_number x d = (case if_truthy x of None \<Rightarrow> d | Some n \<Rightarrow> n)"
  by (simp add: or_number_def if_truthy_def split: option.splits)

lemma ssmlText_cong:
  assumes "if_truthy (rate a) = if_truthy (rate b)" "if_truthy (pitch a) = if_truthy (pitch b)"
    "if_truthy (volume a) = if_truthy (volume b)" "voiceName a = voiceName b"
  shows "ssmlText cfg text a = ssmlText cfg text b"
  using assms by (simp add: ssmlText_def or_number_if_truthy)

lemma new_utterance_cong:
  assumes "if_truthy (rate a) = if_truthy (rate b)" "if_truthy (pitch a) = if_truthy (pitch b)"
    "if_truthy (volume a) = if_truthy (volume b)" "voiceName a = voiceName b"
  shows "new_utterance cfg vs text a = new_utterance cfg vs text b"
  using assms by (simp add: new_utterance_def select_voice_def split: option.splits)

lemma synthesizeSpeech_cong:
  assumes "if_truthy (rate a) = if_truthy (rate b)" "if_truthy (pitch a) = if_truthy (pitch b)"
    "if_truthy (volume a) = if_truthy (volume b)" "voiceName a = voiceName b"
  shows "synthesizeSpeech w text a = synthesizeSpeech w text b"
  using assms(4) ssmlText_cong [OF assms, of "config w" "text"]
  by (simp add: synthesizeSpeech_def split: option.splits)

lemma speakWithWebSpeech_cong:
  assumes "if_truthy (rate a) = if_truthy (rate b)" "if_truthy (pitch a) = if_truthy (pitch b)"
    "if_truthy (volume a) = if_truthy (volume b)" "voiceName a = voiceName b"
  shows "speakWithWebSpeech w text a = speakWithWebSpeech w text b"
  by (simp add: speakWithWebSpeech_def new_utterance_cong [OF assms] split: option.splits)

lemma speak_catch_cong:
  assumes "if_truthy (rate a) = if_truthy (rate b)" "if_truthy (pitch a) = if_truthy (pitch b)"
    "if_truthy (volume a) = if_truthy (volume b)" "voiceName a = voiceName b"
  shows "speak_catch w e text a = speak_catch w e text b"
  by (simp add: speak_catch_def speakWithWebSpeech_cong [OF assms] split: prod.splits sum.splits)

lemma if_truthy_zero: "if_truthy (Some (Finite 0)) = if_truthy None"
  by (simp add: if_truthy_def)

lemma alike_refl [simp]: "alike k k"
  by (cases k) (simp_all add: same_effect_def)

lemma same_effect_facts:
  assumes "same_effect a b"
  shows "synthesizeSpeech w text a = synthesizeSpeech w text b"
    and "speakWithWebSpeech w text a = speakWithWebSpeech w text b"
    and "speak_catch w e text a = speak_catch w e text b"
proof -
  from assms have h: "if_truthy (rate a) = if_truthy (rate b)" "if_truthy (pitch a) = if_truthy (pitch b)"
    "if_truthy (volume a) = if_truthy (volume b)" "voiceName a = voiceName b"
    by (simp_all add: same_effect_def)
  show "synthesizeSpeech w text a = synthesizeSpeech w text b" by (rule synthesizeSpeech_cong [OF h])
  show "speakWithWebSpeech w text a = speakWithWebSpeech w text b" by (rule speakWithWebSpeech_cong [OF h])
  show "speak_catch w e text a = speak_catch w e text b" by (rule speak_catch_cong [OF h])
qed

lemma speak_alike:
  assumes "same_effect a b"
  shows "fst (speak w text a) = fst (speak w text b) \<and> alike (snd (speak w text a)) (snd (speak w text b))"
  using assms
  by (simp add: speak_def speak_local_def same_effect_facts [OF assms]
      split: prod.splits synthesis.splits sum.splits)

lemma resume_alike:
  assumes "alike k k'"
  shows "fst (resume w k e) = fst (resume w k' e) \<and> alike (snd (resume w k e)) (snd (resume w k' e))"
proof (cases k)
  case (AwaitSynthesize t a)
  with assms obtain b where k': "k' = AwaitSynthesize t b" and s: "same_effect a b"
    by (cases k') auto
  show ?thesis
    by (cases e) (simp_all add: AwaitSynthesize k' s Let_def same_effect_facts(3) [OF s] split: sum.splits)
next
  case (AwaitWebSpeechTry u t a)
  with assms obtain b where k': "k' = AwaitWebSpeechTry u t b" and s: "same_effect a b"
    by (cases k') auto
  show ?thesis
    by (cases e) (simp_all add: AwaitWebSpeechTry k' s same_effect_facts(3) [OF s])
next
  case (AwaitWebSpeechCatch x u)
  with assms have "k' = k" by (cases k') auto
  then show ?thesis by simp
next
  case Resolved
  with assms have "k' = k" by (cases k') auto
  then show ?thesis by simp
next
  case (Rejected x)
  with assms have "k' = k" by (cases k') auto
  then show ?thesis by simp
qed

lemma run_alike:
  "fst st = fst st' \<Longrightarrow> alike (snd st) (snd st') \<Longrightarrow>
   fst (run st es) = fst (run st' es) \<and> alike (snd (run st es)) (snd (run st' es))"
proof (induction es arbitrary: st st')
  case Nil
  then show ?case by simp
next
  case (Cons e es)
  from resume_alike [OF Cons.prems(2), of "fst st" e] Cons.prems(1)
  have "fst (resume (fst st) (snd st) e) = fst (resume (fst st') (snd st') e)"
    "alike (snd (resume (fst st) (snd st) e)) (snd (resume (fst st') (snd st') e))"
    by simp_all
  from Cons.IH [OF this] show ?case by simp
qed

lemma alike_settled:
  "alike k k' \<Longrightarrow> (k = Resolved) = (k' = Resolved) \<and> (k = Rejected e) = (k' = Rejected e)"
  by (cases k; cases k') auto

lemma speak_run_alike:
  assumes "same_effect a b"
  shows "fst (run (speak w text a) es) = fst (run (speak w text b) es)"
    and "(snd (run (speak w text a) es) = Resolved) = (snd (run (speak w text b) es) = Resolved)"
    and "(snd (run (speak w text a) es) = Rejected e) = (snd (run (speak w text b) es) = Rejected e)"
proof -
  from speak_alike [OF assms, of w "text"]
  have "fst (speak w text a) = fst (speak w text b)" "alike (snd (speak w text a)) (snd (speak w text b))"
    by simp_all
  from run_alike [OF this, of es]
  have r: "fst (run (speak w text a) es) = fst (run (speak w text b) es)"
    "alike (snd (run (speak w text a) es)) (snd (run (speak w text b) es))"
    by simp_all
  show "fst (run (speak w text a) es) = fst (run (speak w text b) es)" by (rule r(1))
  show "(snd (run (speak w text a) es) = Resolved) = (snd (run (speak w text b) es) = Resolved)"
    using alike_settled [OF r(2)] by simp
  show "(snd (run (speak w text a) es) = Rejected e) = (snd (run (speak w text b) es) = Rejected e)"
    using alike_settled [OF r(2)] by simp
qed

lemma zero_same_effect:
  "same_effect (options\<lparr>rate := Some (Finite 0)\<rparr>) (options\<lparr>rate := None\<rparr>)"
  "same_effect (options\<lparr>pitch := Some (Finite 0)\<rparr>) (options\<lparr>pitch := None\<rparr>)"
  "same_effect (options\<lparr>volume := Some (Finite 0)\<rparr>) (options\<lparr>volume := None\<rparr>)"
  by (simp_all add: same_effect_def if_truthy_zero)

text \<open>
  C9. A rate, pitch or volume of 0 reaches neither backend. \<open>synthesizeSpeech\<close> does
  exactly what it does when the option is absent, and the document holds the default at
  the option's place (1 for the rate, 0 for the pitch, 1 for the volume);
  \<open>speakWithWebSpeech\<close> does exactly what it does when the option is absent, and the
  utterance's property is never assigned. Whatever events follow, a call of \<open>speak\<close> with
  the 0 and a call without the option leave the same world and settle alike.
\<close>

theorem zero_option_is_default:
  "synthesizeSpeech w text (options\<lparr>rate := Some (Finite 0)\<rparr>) = synthesizeSpeech w text (options\<lparr>rate := None\<rparr>) \<and>
   synthesizeSpeech w text (options\<lparr>pitch := Some (Finite 0)\<rparr>) = synthesizeSpeech w text (options\<lparr>pitch := None\<rparr>) \<and>
   synthesizeSpeech w text (options\<lparr>volume := Some (Finite 0)\<rparr>) = synthesizeSpeech w text (options\<lparr>volume := None\<rparr>) \<and>
   ssmlText cfg text (options\<lparr>rate := Some (Finite 0)\<rparr>) ! 5 = Num (Finite 1) \<and>
   ssmlText cfg text (options\<lparr>pitch := Some (Finite 0)\<rparr>) ! 7 = Num (Finite 0) \<and>
   ssmlText cfg text (options\<lparr>volume := Some (Finite 0)\<rparr>) ! 9 = Num (Finite 1) \<and>
   speakWithWebSpeech w text (options\<lparr>rate := Some (Finite 0)\<rparr>) = speakWithWebSpeech w text (options\<lparr>rate := None\<rparr>) \<and>
   speakWithWebSpeech w text (options\<lparr>pitch := Some (Finite 0)\<rparr>) = speakWithWebSpeech w text (options\<lparr>pitch := None\<rparr>) \<and>
   speakWithWebSpeech w text (options\<lparr>volume := Some (Finite 0)\<rparr>) = speakWithWebSpeech w text (options\<lparr>volume := None\<rparr>) \<and>
   utt_rate (new_utterance cfg vs text (options\<lparr>rate := Some (Finite 0)\<rparr>)) = None \<and>
   utt_pitch (new_utterance cfg vs text (options\<lparr>pitch := Some (Finite 0)\<rparr>)) = None \<and>
   utt_volume (new_utterance cfg vs text (options\<lparr>volume := Some (Finite 0)\<rparr>)) = None \<and>
   (fst (run (speak w text (options\<lparr>rate := Some (Finite 0)\<rparr>)) es) =
      fst (run (speak w text (options\<lparr>rate := None\<rparr>)) es) \<and>
    (snd (run (speak w text (options\<lparr>rate := Some (Finite 0)\<rparr>)) es) = Resolved) =
      (snd (run (speak w text (options\<lparr>rate := None\<rparr>)) es) = Resolved) \<and>
    (snd (run (speak w text (options\<lparr>rate := Some (Finite 0)\<rparr>)) es) = Rejected e) =
      (snd (run (speak w text (options\<lparr>rate := None\<rparr>)) es) = Rejected e)) \<and>
   (fst (run (speak w text (options\<lparr>pitch := Some (Finite 0)\<rparr>)) es) =
      fst (run (speak w text (options\<lparr>pitch := None\<rparr>)) es) \<and>
    (snd (run (speak w text (options\<lparr>pitch := Some (Finite 0)\<rparr>)) es) = Resolved) =
      (snd (run (speak w text (options\<lparr>pitch := None\<rparr>)) es) = Resolved) \<and>
    (snd (run (speak w text (options\<lparr>pitch := Some (Finite 0)\<rparr>)) es) = Rejected e) =
      (snd (run (speak w text (options\<lparr>pitch := None\<rparr>)) es) = Rejected e)) \<and>
   (fst (run (speak w text (options\<lparr>volume := Some (Finite 0)\<rparr>)) es) =
      fst (run (speak w text (options\<lparr>volume := None\<rparr>)) es) \<and>
    (snd (run (speak w text (options\<lparr>volume := Some (Finite 0)\<rparr>)) es) = Resolved) =
      (snd (run (speak w text (options\<lparr>volume := None\<rparr>)) es) = Resolved) \<and>
    (snd (run (speak w text (options\<lparr>volume := Some (Finite 0)\<rparr>)) es) = Rejected e) =
      (snd (run (speak w text (options\<lparr>volume := None\<rparr>)) es) = Rejected e))"
proof -
  have m: "ssmlText cfg text (options\<lparr>rate := Some (Finite 0)\<rparr>) ! 5 = Num (Finite 1)"
    "ssmlText cfg text (options\<lparr>pitch := Some (Finite 0)\<rparr>) ! 7 = Num (Finite 0)"
    "ssmlText cfg text (options\<lparr>volume := Some (Finite 0)\<rparr>) ! 9 = Num (Finite 1)"
    by (simp_all add: ssmlText_def or_number_def)
  have u: "utt_rate (new_utterance cfg vs text (options\<lparr>rate := Some (Finite 0)\<rparr>)) = None"
    "utt_pitch (new_utterance cfg vs text (options\<lparr>pitch := Some (Finite 0)\<rparr>)) = None"
    "utt_volume (new_utterance cfg vs text (options\<lparr>volume := Some (Finite 0)\<rparr>)) = None"
    by (simp_all add: new_utterance_def if_truthy_def)
  show ?thesis
    by (intro conjI m u
        same_effect_facts(1,2) [OF zero_same_effect(1)] speak_run_alike [OF zero_same_effect(1)]
        same_effect_facts(1,2) [OF zero_same_effect(2)] speak_run_alike [OF zero_same_effect(2)]
        same_effect_facts(1,2) [OF zero_same_effect(3)] speak_run_alike [OF zero_same_effect(3)])
qed

subsection \<open>The list of voices\<close>

lemma foreign_voice_selectable:
  "select_voice \<lparr>subscriptionKey = ''k'', region = ''eastus'', language = ''en-US'', voice = ''en-US-JennyNeural''\<rparr>
       (no_options\<lparr>voiceName := Some ''Samantha''\<rparr>) [\<lparr>name = ''Samantha'', lang = ''en-US''\<rparr>]
     = Some \<lparr>name = ''Samantha'', lang = ''en-US''\<rparr> \<and>
   chineseVoices [\<lparr>name = ''Samantha'', lang = ''en-US''\<rparr>] = []"
  by code_simp

text \<open>
  C10. \<open>getAvailableVoices\<close> resolves with the names of the platform's voices whose
  language tag contains \<open>zh\<close>, in the platform's order: at once when the voices are
  loaded, after the \<^verbatim>\<open>voiceschanged\<close> event when they are not, and with the empty list
  where there is no speech synthesis. The names returned are exactly the names of such
  voices. The voice selection of \<open>speakWithWebSpeech\<close> compares the language tag with
  the configured language instead, so an instance configured for \<open>en-US\<close> selects a voice
  that the list leaves out.
\<close>

theorem available_voices_are_chinese:
  "(speechSynthesis w = None \<longrightarrow> getAvailableVoices w = (w, VoicesResolved [])) \<and>
   (speechSynthesis w = Some ss \<and> voices ss \<noteq> [] \<longrightarrow>
      getAvailableVoices w = (w, VoicesResolved (map name (filter (\<lambda>v. sublist ''zh'' (lang v)) (voices ss))))) \<and>
   (speechSynthesis w = Some ss \<and> voices ss = [] \<longrightarrow>
      snd (getAvailableVoices w) = VoicesPending \<and>
      voiceschanged (voices_loaded vs (fst (getAvailableVoices w))) VoicesPending =
        VoicesResolved (map name (filter (\<lambda>v. sublist ''zh'' (lang v)) vs))) \<and>
   set (chineseVoices vs) = name ` {v \<in> set vs. sublist ''zh'' (lang v)} \<and>
   (select_voice \<lparr>subscriptionKey = ''k'', region = ''eastus'', language = ''en-US'', voice = ''en-US-JennyNeural''\<rparr>
       (no_options\<lparr>voiceName := Some ''Samantha''\<rparr>) [\<lparr>name = ''Samantha'', lang = ''en-US''\<rparr>]
     = Some \<lparr>name = ''Samantha'', lang = ''en-US''\<rparr> \<and>
    chineseVoices [\<lparr>name = ''Samantha'', lang = ''en-US''\<rparr>] = [])"
proof (intro conjI impI)
  assume "speechSynthesis w = None"
  then show "getAvailableVoices w = (w, VoicesResolved [])"
    by (simp add: getAvailableVoices_def)
next
  assume "speechSynthesis w = Some ss \<and> voices ss \<noteq> []"
  then show "getAvailableVoices w =
      (w, VoicesResolved (map name (filter (\<lambda>v. sublist ''zh'' (lang v)) (voices ss))))"
    by (simp add: getAvailableVoices_def chineseVoices_def str_includes_def)
next
  assume "speechSynthesis w = Some ss \<and> voices ss = []"
  then show "snd (getAvailableVoices w) = VoicesPending"
    by (simp add: getAvailableVoices_def)
next
  assume "speechSynthesis w = Some ss \<and> voices ss = []"
  then show "voiceschanged (voices_loaded vs (fst (getAvailableVoices w))) VoicesPending =
      VoicesResolved (map name (filter (\<lambda>v. sublist ''zh'' (lang v)) vs))"
    by (simp add: getAvailableVoices_def voiceschanged_def voices_loaded_def chineseVoices_def
        str_includes_def)
next
  show "set (chineseVoices vs) = name ` {v \<in> set vs. sublist ''zh'' (lang v)}"
    by (simp add: chineseVoices_def str_includes_def)
next
  show "select_voice \<lparr>subscriptionKey = ''k'', region = ''eastus'', language = ''en-US'', voice = ''en-US-JennyNeural''\<rparr>
       (no_options\<lparr>voiceName := Some ''Samantha''\<rparr>) [\<lparr>name = ''Samantha'', lang = ''en-US''\<rparr>]
     = Some \<lparr>name = ''Samantha'', lang = ''en-US''\<rparr>"
    by (rule conjunct1 [OF foreign_voice_selectable])
next
  show "chineseVoices [\<lparr>name = ''Samantha'', lang = ''en-US''\<rparr>] = []"
    by (rule conjunct2 [OF foreign_voice_selectable])
qed

theorem available_voices_are_chinese_witness:
  "speechSynthesis speechService = Some browser \<and> voices browser \<noteq> [] \<and>
   getAvailableVoices speechService = (speechService, VoicesResolved [''Ting-Ting''])"
proof -
  have h: "speechSynthesis speechService = Some browser \<and> voices browser \<noteq> []"
    by (simp add: speechService_def new_SpeechService_def browser_def two_voices_def)
  have e: "map name (filter (\<lambda>v. sublist ''zh'' (lang v)) (voices browser)) = [''Ting-Ting'']"
    by code_simp
  have "getAvailableVoices speechService =
      (speechService, VoicesResolved (map name (filter (\<lambda>v. sublist ''zh'' (lang v)) (voices browser))))"
    using available_voices_are_chinese [of speechService browser] h by simp
  with h e show ?thesis by simp
qed

subsection \<open>The placeholder credential\<close>

text \<open>
  C5. With the placeholder key \<open>your-azure-key\<close>, \<open>speak\<close> never issues a request to the
  cloud, whatever the text, the options and the events that follow: the requests in the
  trace stay the ones that were there. Where the browser has speech synthesis, the call
  starts a local utterance with the text and resolves when the utterance ends; where it has
  none, the call is rejected with the error of the unsupported browser.
\<close>

theorem unconfigured_stays_local:
  assumes "subscriptionKey (config w) = ''your-azure-key''"
  shows "filter is_CloudRequest (trace (fst (run (speak w text options) es))) =
           filter is_CloudRequest (trace w) \<and>
         (speechSynthesis w = None \<longrightarrow> snd (speak w text options) = Rejected Unsupported) \<and>
         (speechSynthesis w = Some ss \<longrightarrow>
            snd (speak w text options) =
              AwaitWebSpeechTry (new_utterance (config w) (voices ss) text options) text options \<and>
            trace (fst (speak w text options)) =
              trace (stop w) @ [SynthSpeak (new_utterance (config w) (voices ss) text options)] \<and>
            utt_text (new_utterance (config w) (voices ss) text options) = text \<and>
            snd (run (speak w text options) [UtteranceEnd]) = Resolved)"
proof (intro conjI impI)
  show "filter is_CloudRequest (trace (fst (run (speak w text options) es))) =
        filter is_CloudRequest (trace w)"
    using run_local [of "speak w text options" es] speak_local_local [of w "text" options]
    by (simp add: speak_unconfigured [OF assms])
next
  assume "speechSynthesis w = None"
  then show "snd (speak w text options) = Rejected Unsupported"
    by (simp add: speak_unconfigured [OF assms] speak_local_def speakWithWebSpeech_None speak_catch_None)
next
  assume s: "speechSynthesis w = Some ss"
  from speakWithWebSpeech_Some [OF s, of "text" options]
  obtain w' where w': "speakWithWebSpeech w text options =
        (w', Inr (new_utterance (config w) (voices ss) text options))"
      "trace w' = trace (stop w) @ [SynthSpeak (new_utterance (config w) (voices ss) text options)]"
    by blast
  then have sp: "speak w text options =
      (w', AwaitWebSpeechTry (new_utterance (config w) (voices ss) text options) text options)"
    by (simp add: speak_unconfigured [OF assms] speak_local_def)
  show "snd (speak w text options) =
      AwaitWebSpeechTry (new_utterance (config w) (voices ss) text options) text options"
    by (simp add: sp)
  show "trace (fst (speak w text options)) =
      trace (stop w) @ [SynthSpeak (new_utterance (config w) (voices ss) text options)]"
    by (simp add: sp w'(2))
  show "utt_text (new_utterance (config w) (voices ss) text options) = text"
    by (simp add: new_utterance_def)
  show "snd (run (speak w text options) [UtteranceEnd]) = Resolved"
    by (simp add: sp)
qed

theorem unconfigured_stays_local_witness:
  "subscriptionKey (config speechService) = ''your-azure-key'' \<and>
   speechSynthesis speechService = Some browser \<and>
   filter is_CloudRequest (trace (fst (run (speak speechService ''ni hao'' no_options) [UtteranceEnd]))) = [] \<and>
   snd (run (speak speechService ''ni hao'' no_options) [UtteranceEnd]) = Resolved \<and>
   subscriptionKey (config (new_SpeechService DEFAULT_CONFIG None)) = ''your-azure-key'' \<and>
   speechSynthesis (new_SpeechService DEFAULT_CONFIG None) = None \<and>
   snd (speak (new_SpeechService DEFAULT_CONFIG None) ''ni hao'' no_options) = Rejected Unsupported"
proof -
  have h: "subscriptionKey (config speechService) = ''your-azure-key''"
    "speechSynthesis speechService = Some browser" "trace speechService = []"
    by (simp_all add: speechService_def new_SpeechService_def DEFAULT_CONFIG_def)
  have g: "subscriptionKey (config (new_SpeechService DEFAULT_CONFIG None)) = ''your-azure-key''"
    "speechSynthesis (new_SpeechService DEFAULT_CONFIG None) = None"
    by (simp_all add: new_SpeechService_def DEFAULT_CONFIG_def)
  note a = unconfigured_stays_local [OF h(1), of "''ni hao''" no_options "[UtteranceEnd]" browser]
  note b = unconfigured_stays_local [OF g(1), of "''ni hao''" no_options "[]" browser]
  from a h have 1: "filter is_CloudRequest
      (trace (fst (run (speak speechService ''ni hao'' no_options) [UtteranceEnd]))) = []"
    by simp
  from a h have 2: "snd (run (speak speechService ''ni hao'' no_options) [UtteranceEnd]) = Resolved"
    by blast
  from b g have 3: "snd (speak (new_SpeechService DEFAULT_CONFIG None) ''ni hao'' no_options) =
      Rejected Unsupported"
    by blast
  from h(1,2) 1 2 g 3 show ?thesis by (intro conjI)
qed

subsection \<open>Both backends fail\<close>

lemma speak_catch_fails:
  "speechSynthesis w = None \<Longrightarrow> snd (speak_catch w e text options) = Rejected e"
  by (simp add: speak_catch_None)

lemma speak_catch_then_error:
  assumes "speechSynthesis w \<noteq> None"
  shows "snd (run (speak_catch w e text options) [UtteranceError code]) = Rejected e"
proof -
  from assms obtain ss where "speechSynthesis w = Some ss" by blast
  from speak_catch_Some [OF this, of e "text" options] show ?thesis by auto
qed

lemma speak_catch_then_end:
  assumes "speechSynthesis w \<noteq> None"
  shows "snd (run (speak_catch w e text options) [UtteranceEnd]) = Resolved \<and>
         ConsoleError SpeechFailed e \<in> set (trace (fst (run (speak_catch w e text options) [UtteranceEnd])))"
proof -
  from assms obtain ss where "speechSynthesis w = Some ss" by blast
  from speak_catch_Some [OF this, of e "text" options] show ?thesis
    by (auto simp add: stop_trace)
qed

lemma speak_cloud_failed:
  assumes "subscriptionKey (config w) \<noteq> ''your-azure-key''" "sdkFault w = None"
    "synthesis_callback r = Inl e"
  shows "run (speak w text options) (CloudReply r # es) =
         run (speak_catch (emit SynthesizerClose (fst (speak w text options))) e text options) es"
  using assms by (simp add: speak_configured Let_def)

lemma speak_sdk_threw:
  assumes "subscriptionKey (config w) \<noteq> ''your-azure-key''" "sdkFault w = Some m"
  shows "speak w text options = speak_catch w (SdkError m) text options"
  using assms by (simp add: speak_def synthesizeSpeech_def)

lemma speak_speechSynthesis:
  assumes "subscriptionKey (config w) \<noteq> ''your-azure-key''" "sdkFault w = None"
  shows "speechSynthesis (emit SynthesizerClose (fst (speak w text options))) = speechSynthesis w"
  using assms by (simp add: speak_configured)

text \<open>
  C4. An instance with a real key, whose cloud synthesis fails with the error \<open>e\<close>: through
  the result callback with another reason or through the error callback (first part), or
  because the SDK throws while the request is built (second part). If the local backend
  fails as well (the browser has no speech synthesis, or the utterance reports an error),
  \<open>speak\<close> is rejected with \<open>e\<close>, which is never the local error. If the utterance ends,
  \<open>speak\<close> resolves, and the console has received \<open>e\<close>.
\<close>

theorem cloud_error_is_kept:
  assumes "subscriptionKey (config w) \<noteq> ''your-azure-key''"
  shows "(sdkFault w = None \<and> synthesis_callback r = Inl e \<longrightarrow>
            (speechSynthesis w = None \<longrightarrow>
               snd (run (speak w text options) [CloudReply r]) = Rejected e) \<and>
            (speechSynthesis w \<noteq> None \<longrightarrow>
               snd (run (speak w text options) [CloudReply r, UtteranceError code]) = Rejected e \<and>
               snd (run (speak w text options) [CloudReply r, UtteranceEnd]) = Resolved \<and>
               ConsoleError SpeechFailed e \<in>
                 set (trace (fst (run (speak w text options) [CloudReply r, UtteranceEnd])))) \<and>
            e \<noteq> UtteranceFailed code \<and> e \<noteq> Unsupported) \<and>
         (sdkFault w = Some m \<longrightarrow>
            (speechSynthesis w = None \<longrightarrow> snd (speak w text options) = Rejected (SdkError m)) \<and>
            (speechSynthesis w \<noteq> None \<longrightarrow>
               snd (run (speak w text options) [UtteranceError code]) = Rejected (SdkError m) \<and>
               snd (run (speak w text options) [UtteranceEnd]) = Resolved \<and>
               ConsoleError SpeechFailed (SdkError m) \<in>
                 set (trace (fst (run (speak w text options) [UtteranceEnd])))))"
proof (intro conjI impI)
  assume a: "sdkFault w = None \<and> synthesis_callback r = Inl e"
  let ?W = "emit SynthesizerClose (fst (speak w text options))"
  note f = speak_cloud_failed [OF assms conjunct1 [OF a] conjunct2 [OF a], of "text" options]
  note s = speak_speechSynthesis [OF assms conjunct1 [OF a], of "text" options]
  have f0: "run (speak w text options) [CloudReply r] = speak_catch ?W e text options"
    using f [of "[]"] by simp
  {
    assume "speechSynthesis w = None"
    then have "speechSynthesis ?W = None" by (simp only: s)
    from speak_catch_fails [OF this, of e "text" options]
    show "snd (run (speak w text options) [CloudReply r]) = Rejected e"
      by (simp only: f0)
  next
    assume "speechSynthesis w \<noteq> None"
    then have n: "speechSynthesis ?W \<noteq> None" by (simp only: s not_False_eq_True)
    from speak_catch_then_error [OF n, of e "text" options code]
    show "snd (run (speak w text options) [CloudReply r, UtteranceError code]) = Rejected e"
      by (simp only: f)
    from speak_catch_then_end [OF n, of e "text" options]
    show "snd (run (speak w text options) [CloudReply r, UtteranceEnd]) = Resolved"
      by (simp only: f)
    from speak_catch_then_end [OF n, of e "text" options]
    show "ConsoleError SpeechFailed e \<in>
        set (trace (fst (run (speak w text options) [CloudReply r, UtteranceEnd])))"
      by (simp only: f)
  next
    show "e \<noteq> UtteranceFailed code" using a by (cases r) auto
    show "e \<noteq> Unsupported" using a by (cases r) auto
  }
next
  assume a: "sdkFault w = Some m"
  note f = speak_sdk_threw [OF assms a, of "text" options]
  {
    assume n: "speechSynthesis w = None"
    from speak_catch_fails [OF n, of "SdkError m" "text" options]
    show "snd (speak w text options) = Rejected (SdkError m)"
      by (simp only: f)
  next
    assume n: "speechSynthesis w \<noteq> None"
    from speak_catch_then_error [OF n, of "SdkError m" "text" options code]
    show "snd (run (speak w text options) [UtteranceError code]) = Rejected (SdkError m)"
      by (simp only: f)
    from speak_catch_then_end [OF n, of "SdkError m" "text" options]
    show "snd (run (speak w text options) [UtteranceEnd]) = Resolved"
      by (simp only: f)
    from speak_catch_then_end [OF n, of "SdkError m" "text" options]
    show "ConsoleError SpeechFailed (SdkError m) \<in> set (trace (fst (run (speak w text options) [UtteranceEnd])))"
      by (simp only: f)
  }
qed


theorem cloud_error_is_kept_witness:
  "subscriptionKey (config keyedService) \<noteq> ''your-azure-key'' \<and>
   sdkFault keyedService = None \<and>
   synthesis_callback (OtherReason ''quota exceeded'') = Inl (SynthesisFailed ''quota exceeded'') \<and>
   speechSynthesis keyedService \<noteq> None \<and>
   snd (run (speak keyedService ''ni hao'' no_options)
          [CloudReply (OtherReason ''quota exceeded''), UtteranceError ''synthesis-failed'']) =
     Rejected (SynthesisFailed ''quota exceeded'') \<and>
   snd (run (speak keyedService ''ni hao'' no_options)
          [CloudReply (OtherReason ''quota exceeded''), UtteranceEnd]) = Resolved \<and>
   speechSynthesis (new_SpeechService keyed_config None) = None \<and>
   snd (run (speak (new_SpeechService keyed_config None) ''ni hao'' no_options)
          [CloudReply (OtherReason ''quota exceeded'')]) =
     Rejected (SynthesisFailed ''quota exceeded'') \<and>
   sdkFault (keyedService\<lparr>sdkFault := Some ''no region''\<rparr>) = Some ''no region'' \<and>
   snd (run (speak (keyedService\<lparr>sdkFault := Some ''no region''\<rparr>) ''ni hao'' no_options)
          [UtteranceError ''synthesis-failed'']) = Rejected (SdkError ''no region'') \<and>
   snd (speak (new_SpeechService keyed_config None\<lparr>sdkFault := Some ''no region''\<rparr>) ''ni hao'' no_options) =
     Rejected (SdkError ''no region'')"
proof -
  have k: "subscriptionKey (config keyedService) \<noteq> ''your-azure-key''"
    "subscriptionKey (config (new_SpeechService keyed_config None)) \<noteq> ''your-azure-key''"
    "subscriptionKey (config (keyedService\<lparr>sdkFault := Some ''no region''\<rparr>)) \<noteq> ''your-azure-key''"
    "subscriptionKey (config (new_SpeechService keyed_config None\<lparr>sdkFault := Some ''no region''\<rparr>))
       \<noteq> ''your-azure-key''"
    by (simp_all add: keyedService_def keyed_config_def new_SpeechService_def DEFAULT_CONFIG_def)
  have h: "sdkFault keyedService = None"
    "synthesis_callback (OtherReason ''quota exceeded'') = Inl (SynthesisFailed ''quota exceeded'')"
    "speechSynthesis keyedService \<noteq> None"
    "speechSynthesis (new_SpeechService keyed_config None) = None"
    "sdkFault (new_SpeechService keyed_config None) = None"
    "sdkFault (keyedService\<lparr>sdkFault := Some ''no region''\<rparr>) = Some ''no region''"
    "speechSynthesis (keyedService\<lparr>sdkFault := Some ''no region''\<rparr>) \<noteq> None"
    "sdkFault (new_SpeechService keyed_config None\<lparr>sdkFault := Some ''no region''\<rparr>) = Some ''no region''"
    "speechSynthesis (new_SpeechService keyed_config None\<lparr>sdkFault := Some ''no region''\<rparr>) = None"
    by (simp_all add: keyedService_def new_SpeechService_def)
  note a = cloud_error_is_kept [OF k(1), of "OtherReason ''quota exceeded''"
      "SynthesisFailed ''quota exceeded''" "''ni hao''" no_options "''synthesis-failed''" "''no region''"]
  note b = cloud_error_is_kept [OF k(2), of "OtherReason ''quota exceeded''"
      "SynthesisFailed ''quota exceeded''" "''ni hao''" no_options "''synthesis-failed''" "''no region''"]
  note c = cloud_error_is_kept [OF k(3), of "OtherReason ''quota exceeded''"
      "SynthesisFailed ''quota exceeded''" "''ni hao''" no_options "''synthesis-failed''" "''no region''"]
  note d = cloud_error_is_kept [OF k(4), of "OtherReason ''quota exceeded''"
      "SynthesisFailed ''quota exceeded''" "''ni hao''" no_options "''synthesis-failed''" "''no region''"]
  from a h(1,2,3) have 1: "snd (run (speak keyedService ''ni hao'' no_options)
          [CloudReply (OtherReason ''quota exceeded''), UtteranceError ''synthesis-failed'']) =
     Rejected (SynthesisFailed ''quota exceeded'')"
    and 2: "snd (run (speak keyedService ''ni hao'' no_options)
          [CloudReply (OtherReason ''quota exceeded''), UtteranceEnd]) = Resolved"
    by blast+
  from b h(2,4,5) have 3: "snd (run (speak (new_SpeechService keyed_config None) ''ni hao'' no_options)
          [CloudReply (OtherReason ''quota exceeded'')]) = Rejected (SynthesisFailed ''quota exceeded'')"
    by blast
  from c h(6,7) have 4: "snd (run (speak (keyedService\<lparr>sdkFault := Some ''no region''\<rparr>) ''ni hao'' no_options)
          [UtteranceError ''synthesis-failed'']) = Rejected (SdkError ''no region'')"
    by blast
  from d h(8,9) have 5: "snd (speak (new_SpeechService keyed_config None\<lparr>sdkFault := Some ''no region''\<rparr>)
          ''ni hao'' no_options) = Rejected (SdkError ''no region'')"
    by blast
  from k(1) h(1,2,3) 1 2 h(4) 3 h(6) 4 5 show ?thesis by (intro conjI)
qed

subsection \<open>Arguments are not validated\<close>

lemma speak_catch_rejected:
  "rejected (snd (speak_catch w e text options)) = (speechSynthesis w = None)"
proof (cases "speechSynthesis w")
  case None
  then show ?thesis by (simp add: speak_catch_None)
next
  case (Some ss)
  from speak_catch_Some [OF this, of e "text" options] show ?thesis using Some by auto
qed

lemma speak_local_rejected:
  "rejected (snd (speak_local w text options)) = (speechSynthesis w = None)"
proof (cases "speechSynthesis w")
  case None
  then show ?thesis by (simp add: speak_local_def speakWithWebSpeech_None speak_catch_rejected)
next
  case (Some ss)
  from speakWithWebSpeech_Some [OF this, of "text" options] show ?thesis using Some
    by (auto simp add: speak_local_def)
qed

lemma speak_rejected:
  "rejected (snd (speak w text options)) =
     (speechSynthesis w = None \<and>
      (subscriptionKey (config w) = ''your-azure-key'' \<or> sdkFault w \<noteq> None))"
  by (auto simp add: speak_def synthesizeSpeech_def speak_local_rejected speak_catch_rejected
      split: option.splits)

text \<open>
  C2, as the code has it. \<open>speak\<close> does not look at its arguments before it turns to a
  backend: whether the call is rejected at once depends on the instance and the browser
  only, never on the text or the options. With a real key (and an SDK that does not throw)
  the call issues the cloud request, whose document holds the text as given and every
  truthy rate, pitch and volume unchanged; with the placeholder key and speech synthesis
  present it starts a local utterance that holds the text as given and every truthy rate,
  pitch and volume unchanged. No value is clamped.
\<close>

theorem speak_forwards_unvalidated:
  "rejected (snd (speak w text options)) = rejected (snd (speak w text' options')) \<and>
   (subscriptionKey (config w) \<noteq> ''your-azure-key'' \<and> sdkFault w = None \<longrightarrow>
      speak w text options =
        (emit (CloudRequest
                 \<lparr>req_key = subscriptionKey (config w), req_region = region (config w),
                  req_voiceName = or_string (voiceName options) (voice (config w)),
                  req_ssml = ssmlText (config w) text options\<rparr>) w,
         AwaitSynthesize text options)) \<and>
   ssmlText cfg text options ! 11 = Str text \<and>
   (rate options = Some x \<and> truthy x \<longrightarrow> ssmlText cfg text options ! 5 = Num x) \<and>
   (pitch options = Some y \<and> truthy y \<longrightarrow> ssmlText cfg text options ! 7 = Num y) \<and>
   (volume options = Some z \<and> truthy z \<longrightarrow> ssmlText cfg text options ! 9 = Num z) \<and>
   (subscriptionKey (config w) = ''your-azure-key'' \<and> speechSynthesis w = Some ss \<longrightarrow>
      snd (speak w text options) =
        AwaitWebSpeechTry (new_utterance (config w) (voices ss) text options) text options \<and>
      trace (fst (speak w text options)) =
        trace (stop w) @ [SynthSpeak (new_utterance (config w) (voices ss) text options)]) \<and>
   utt_text (new_utterance cfg vs text options) = text \<and>
   (rate options = Some x \<and> truthy x \<longrightarrow> utt_rate (new_utterance cfg vs text options) = Some x) \<and>
   (pitch options = Some y \<and> truthy y \<longrightarrow> utt_pitch (new_utterance cfg vs text options) = Some y) \<and>
   (volume options = Some z \<and> truthy z \<longrightarrow> utt_volume (new_utterance cfg vs text options) = Some z)"
proof (intro conjI impI)
  show "rejected (snd (speak w text options)) = rejected (snd (speak w text' options'))"
    by (simp only: speak_rejected)
next
  assume "subscriptionKey (config w) \<noteq> ''your-azure-key'' \<and> sdkFault w = None"
  then show "speak w text options =
        (emit (CloudRequest
                 \<lparr>req_key = subscriptionKey (config w), req_region = region (config w),
                  req_voiceName = or_string (voiceName options) (voice (config w)),
                  req_ssml = ssmlText (config w) text options\<rparr>) w,
         AwaitSynthesize text options)"
    by (simp add: speak_configured)
next
  show "ssmlText cfg text options ! 11 = Str text" by (simp add: ssmlText_def)
next
  assume "rate options = Some x \<and> truthy x"
  then show "ssmlText cfg text options ! 5 = Num x" by (simp add: ssmlText_def or_number_def)
next
  assume "pitch options = Some y \<and> truthy y"
  then show "ssmlText cfg text options ! 7 = Num y" by (simp add: ssmlText_def or_number_def)
next
  assume "volume options = Some z \<and> truthy z"
  then show "ssmlText cfg text options ! 9 = Num z" by (simp add: ssmlText_def or_number_def)
next
  assume a: "subscriptionKey (config w) = ''your-azure-key'' \<and> speechSynthesis w = Some ss"
  from speakWithWebSpeech_Some [OF conjunct2 [OF a], of "text" options]
  obtain w' where w': "speakWithWebSpeech w text options =
        (w', Inr (new_utterance (config w) (voices ss) text options))"
      "trace w' = trace (stop w) @ [SynthSpeak (new_utterance (config w) (voices ss) text options)]"
    by blast
  then have sp: "speak w text options =
      (w', AwaitWebSpeechTry (new_utterance (config w) (voices ss) text options) text options)"
    by (simp add: speak_unconfigured [OF conjunct1 [OF a]] speak_local_def)
  show "snd (speak w text options) =
      AwaitWebSpeechTry (new_utterance (config w) (voices ss) text options) text options"
    by (simp add: sp)
  show "trace (fst (speak w text options)) =
      trace (stop w) @ [SynthSpeak (new_utterance (config w) (voices ss) text options)]"
    by (simp add: sp w'(2))
next
  show "utt_text (new_utterance cfg vs text options) = text" by (simp add: new_utterance_def)
next
  assume "rate options = Some x \<and> truthy x"
  then show "utt_rate (new_utterance cfg vs text options) = Some x"
    by (simp add: new_utterance_def if_truthy_def)
next
  assume "pitch options = Some y \<and> truthy y"
  then show "utt_pitch (new_utterance cfg vs text options) = Some y"
    by (simp add: new_utterance_def if_truthy_def)
next
  assume "volume options = Some z \<and> truthy z"
  then show "utt_volume (new_utterance cfg vs text options) = Some z"
    by (simp add: new_utterance_def if_truthy_def)
qed

lemma speak_empty_text:
  "speak speechService [] no_options =
     (speechService\<lparr>isSpeaking := True,
        speechSynthesis := Some (browser\<lparr>pending :=
          [\<lparr>utt_text = [], utt_lang = ''zh-CN'', utt_rate = None, utt_pitch = None,
            utt_volume = None, utt_voice = None\<rparr>]\<rparr>),
        trace := [SynthSpeak \<lparr>utt_text = [], utt_lang = ''zh-CN'', utt_rate = None, utt_pitch = None,
            utt_volume = None, utt_voice = None\<rparr>]\<rparr>,
      AwaitWebSpeechTry \<lparr>utt_text = [], utt_lang = ''zh-CN'', utt_rate = None, utt_pitch = None,
            utt_volume = None, utt_voice = None\<rparr> [] no_options)"
  by (simp add: speak_def synthesizeSpeech_def speak_local_def speakWithWebSpeech_def stop_def
      speechService_def new_SpeechService_def DEFAULT_CONFIG_def browser_def new_utterance_def
      no_options_def if_truthy_def select_voice_def emit_def Let_def)


lemma speak_rate_three:
  "speak keyedService ''ni hao'' (no_options\<lparr>rate := Some (Finite 3)\<rparr>) =
     (keyedService\<lparr>trace :=
        [CloudRequest \<lparr>req_key = ''0123456789abcdef'', req_region = ''eastasia'',
           req_voiceName = ''zh-CN-XiaoxiaoNeural'',
           req_ssml = ssmlText keyed_config ''ni hao'' (no_options\<lparr>rate := Some (Finite 3)\<rparr>)\<rparr>]\<rparr>,
      AwaitSynthesize ''ni hao'' (no_options\<lparr>rate := Some (Finite 3)\<rparr>))"
  by (simp add: speak_def synthesizeSpeech_def keyedService_def keyed_config_def new_SpeechService_def
      DEFAULT_CONFIG_def no_options_def or_string_def emit_def)

text \<open>
  C2, as stated, fails: the exported singleton, asked to speak the empty text, is not
  rejected and hands an utterance with the empty text to the browser; an instance with a
  real key, asked for the rate 3, is not rejected and sends a request whose document
  holds the rate 3.
\<close>

theorem validation_counterexample:
  "\<not> rejected (snd (speak speechService [] no_options)) \<and>
   trace (fst (speak speechService [] no_options)) =
     [SynthSpeak \<lparr>utt_text = [], utt_lang = ''zh-CN'', utt_rate = None, utt_pitch = None,
        utt_volume = None, utt_voice = None\<rparr>] \<and>
   \<not> rejected (snd (speak keyedService ''ni hao'' (no_options\<lparr>rate := Some (Finite 3)\<rparr>))) \<and>
   trace (fst (speak keyedService ''ni hao'' (no_options\<lparr>rate := Some (Finite 3)\<rparr>))) =
     [CloudRequest \<lparr>req_key = ''0123456789abcdef'', req_region = ''eastasia'',
        req_voiceName = ''zh-CN-XiaoxiaoNeural'',
        req_ssml = ssmlText keyed_config ''ni hao'' (no_options\<lparr>rate := Some (Finite 3)\<rparr>)\<rparr>] \<and>
   ssmlText keyed_config ''ni hao'' (no_options\<lparr>rate := Some (Finite 3)\<rparr>) ! 5 = Num (Finite 3)"
  by (simp add: speak_empty_text speak_rate_three) (simp add: ssmlText_def or_number_def)

theorem speak_forwards_unvalidated_witness:
  "rate \<lparr>rate = Some (Finite 3), pitch = Some (Finite (5 / 2)), volume = Some (Finite 2), voiceName = None\<rparr>
     = Some (Finite 3) \<and> truthy (Finite 3) \<and>
   pitch \<lparr>rate = Some (Finite 3), pitch = Some (Finite (5 / 2)), volume = Some (Finite 2), voiceName = None\<rparr>
     = Some (Finite (5 / 2)) \<and> truthy (Finite (5 / 2)) \<and>
   volume \<lparr>rate = Some (Finite 3), pitch = Some (Finite (5 / 2)), volume = Some (Finite 2), voiceName = None\<rparr>
     = Some (Finite 2) \<and> truthy (Finite 2) \<and>
   subscriptionKey (config speechService) = ''your-azure-key'' \<and>
   speechSynthesis speechService = Some browser \<and>
   subscriptionKey (config keyedService) \<noteq> ''your-azure-key'' \<and> sdkFault keyedService = None \<and>
   snd (speak speechService []
          \<lparr>rate = Some (Finite 3), pitch = Some (Finite (5 / 2)), volume = Some (Finite 2), voiceName = None\<rparr>) =
     AwaitWebSpeechTry
       \<lparr>utt_text = [], utt_lang = ''zh-CN'', utt_rate = Some (Finite 3), utt_pitch = Some (Finite (5 / 2)),
         utt_volume = Some (Finite 2), utt_voice = None\<rparr> []
       \<lparr>rate = Some (Finite 3), pitch = Some (Finite (5 / 2)), volume = Some (Finite 2), voiceName = None\<rparr> \<and>
   snd (speak keyedService []
          \<lparr>rate = Some (Finite 3), pitch = Some (Finite (5 / 2)), volume = Some (Finite 2), voiceName = None\<rparr>) =
     AwaitSynthesize []
       \<lparr>rate = Some (Finite 3), pitch = Some (Finite (5 / 2)), volume = Some (Finite 2), voiceName = None\<rparr> \<and>
   ssmlText (config keyedService) []
       \<lparr>rate = Some (Finite 3), pitch = Some (Finite (5 / 2)), volume = Some (Finite 2), voiceName = None\<rparr> ! 7 =
     Num (Finite (5 / 2))"
proof -
  let ?o = "\<lparr>rate = Some (Finite 3), pitch = Some (Finite (5 / 2)), volume = Some (Finite 2),
             voiceName = None\<rparr>"
  have h: "rate ?o = Some (Finite 3) \<and> truthy (Finite 3)"
    "pitch ?o = Some (Finite (5 / 2)) \<and> truthy (Finite (5 / 2))"
    "volume ?o = Some (Finite 2) \<and> truthy (Finite 2)"
    by simp_all
  have g: "subscriptionKey (config speechService) = ''your-azure-key'' \<and>
           speechSynthesis speechService = Some browser"
    "subscriptionKey (config keyedService) \<noteq> ''your-azure-key'' \<and> sdkFault keyedService = None"
    by (simp_all add: speechService_def keyedService_def keyed_config_def new_SpeechService_def
        DEFAULT_CONFIG_def)
  note a = speak_forwards_unvalidated [of speechService "[]" ?o "[]" ?o "config speechService"
      "Finite 3" "Finite (5 / 2)" "Finite 2" browser "voices browser"]
  note b = speak_forwards_unvalidated [of keyedService "[]" ?o "[]" ?o "config keyedService"
      "Finite 3" "Finite (5 / 2)" "Finite 2" browser "voices browser"]
  from a g(1) have "snd (speak speechService [] ?o) =
      AwaitWebSpeechTry (new_utterance (config speechService) (voices browser) [] ?o) [] ?o"
    by blast
  moreover have "new_utterance (config speechService) (voices browser) [] ?o =
      \<lparr>utt_text = [], utt_lang = ''zh-CN'', utt_rate = Some (Finite 3), utt_pitch = Some (Finite (5 / 2)),
         utt_volume = Some (Finite 2), utt_voice = None\<rparr>"
    by (simp add: new_utterance_def if_truthy_def select_voice_def speechService_def
        new_SpeechService_def DEFAULT_CONFIG_def)
  ultimately have 1: "snd (speak speechService [] ?o) =
      AwaitWebSpeechTry \<lparr>utt_text = [], utt_lang = ''zh-CN'', utt_rate = Some (Finite 3),
         utt_pitch = Some (Finite (5 / 2)), utt_volume = Some (Finite 2), utt_voice = None\<rparr> [] ?o"
    by simp
  from b g(2) have 2: "snd (speak keyedService [] ?o) = AwaitSynthesize [] ?o"
    by simp
  from b h(2) have 3: "ssmlText (config keyedService) [] ?o ! 7 = Num (Finite (5 / 2))"
    by blast
  from h g 1 2 3 show ?thesis by (intro conjI) simp_all
qed

subsection \<open>Playback of cloud audio\<close>

text \<open>The definitions that a run on a concrete instance unfolds.\<close>

lemmas eval_defs = speak_def synthesizeSpeech_def speak_local_def speak_catch_def speakWithWebSpeech_def
  stop_def playAudioBuffer_def audio_error_def audio_ended_def play_rejected_def utterance_done_def
  keyedService_def keyed_config_def speechService_def new_SpeechService_def DEFAULT_CONFIG_def
  browser_def new_utterance_def no_options_def if_truthy_def select_voice_def or_string_def
  emit_def new_Audio_def isPlaying_def Let_def

lemma playAudioBuffer_effects:
  "trace (playAudioBuffer w audioData) = trace w @ [CreateObjectURL (nextURL w), AudioPlay (nextURL w)] \<and>
   speechSynthesis (playAudioBuffer w audioData) = speechSynthesis w \<and>
   isSpeaking (playAudioBuffer w audioData)"
  by (simp add: playAudioBuffer_def Let_def)

lemma cloud_path_resolves_at_once:
  assumes "subscriptionKey (config w) \<noteq> ''your-azure-key''" "sdkFault w = None"
  shows "run (speak w text options) [CloudReply (AudioCompleted audioData)] =
         (playAudioBuffer (emit SynthesizerClose (fst (speak w text options))) audioData, Resolved)"
  using assms by (simp add: speak_configured Let_def)

text \<open>
  C1 says that on the cloud path the promise of \<open>speak\<close> settles only after the playback
  has ended or failed, and that a playback error is caught by \<open>speak\<close> and starts the
  local backend. The code calls \<open>playAudioBuffer\<close> without \<^verbatim>\<open>await\<close>: on an instance with
  a real key whose cloud synthesis returns audio, \<open>speak\<close> is resolved as soon as the
  playback has been started, while \<open>isPlaying\<close> is still true and no event of the audio
  element has arrived. When the element then reports an error, the handler releases the
  URL and rejects the promise of \<open>playAudioBuffer\<close>, which nobody holds: the trace shows
  no console message and no local utterance.
\<close>

theorem speak_resolves_before_playback_ends:
  "snd (run (speak keyedService ''ni hao'' no_options) [CloudReply (AudioCompleted [1, 2, 3])]) = Resolved \<and>
   isPlaying (fst (run (speak keyedService ''ni hao'' no_options) [CloudReply (AudioCompleted [1, 2, 3])])) \<and>
   trace (fst (run (speak keyedService ''ni hao'' no_options) [CloudReply (AudioCompleted [1, 2, 3])])) =
     [CloudRequest \<lparr>req_key = ''0123456789abcdef'', req_region = ''eastasia'',
        req_voiceName = ''zh-CN-XiaoxiaoNeural'', req_ssml = ssmlText keyed_config ''ni hao'' no_options\<rparr>,
      SynthesizerClose, CreateObjectURL 0, AudioPlay 0] \<and>
   trace (audio_error
      (fst (run (speak keyedService ''ni hao'' no_options) [CloudReply (AudioCompleted [1, 2, 3])]))) =
     [CloudRequest \<lparr>req_key = ''0123456789abcdef'', req_region = ''eastasia'',
        req_voiceName = ''zh-CN-XiaoxiaoNeural'', req_ssml = ssmlText keyed_config ''ni hao'' no_options\<rparr>,
      SynthesizerClose, CreateObjectURL 0, AudioPlay 0,
      RevokeObjectURL 0, PlaySettle 0 (RejectedWith AudioFailed)]"
  by (simp add: eval_defs)

text \<open>
  C3 says that \<open>stop\<close> is invoked on the active session before cloud audio or a local
  utterance is started, so that at most one session is active. \<open>speakWithWebSpeech\<close>
  does call \<open>stop\<close>; \<open>playAudioBuffer\<close> does not. On an instance with a real key, the
  call for \<open>A\<close> falls back to a local utterance after a cloud failure; while that
  utterance is being spoken, the call for \<open>B\<close> gets audio from the cloud and plays it.
  Between the start of the utterance and the start of the audio the trace has neither a
  cancel nor a pause, the utterance for \<open>A\<close> is still in the queue of the speech
  synthesis, and the audio element is playing.
\<close>

theorem playback_does_not_stop_utterance:
  "snd (run (speak keyedService ''A'' no_options) [CloudReply (OtherReason ''quota exceeded'')]) =
     AwaitWebSpeechCatch (SynthesisFailed ''quota exceeded'')
       \<lparr>utt_text = ''A'', utt_lang = ''zh-CN'', utt_rate = None, utt_pitch = None, utt_volume = None,
        utt_voice = None\<rparr> \<and>
   isPlaying (fst (run (speak keyedService ''A'' no_options) [CloudReply (OtherReason ''quota exceeded'')])) \<and>
   snd (run (speak
          (fst (run (speak keyedService ''A'' no_options) [CloudReply (OtherReason ''quota exceeded'')]))
          ''B'' no_options) [CloudReply (AudioCompleted [1, 2, 3])]) = Resolved \<and>
   trace (fst (run (speak
          (fst (run (speak keyedService ''A'' no_options) [CloudReply (OtherReason ''quota exceeded'')]))
          ''B'' no_options) [CloudReply (AudioCompleted [1, 2, 3])])) =
     [CloudRequest \<lparr>req_key = ''0123456789abcdef'', req_region = ''eastasia'',
        req_voiceName = ''zh-CN-XiaoxiaoNeural'', req_ssml = ssmlText keyed_config ''A'' no_options\<rparr>,
      SynthesizerClose,
      ConsoleError SpeechFailed (SynthesisFailed ''quota exceeded''),
      SynthSpeak \<lparr>utt_text = ''A'', utt_lang = ''zh-CN'', utt_rate = None, utt_pitch = None,
        utt_volume = None, utt_voice = None\<rparr>,
      CloudRequest \<lparr>req_key = ''0123456789abcdef'', req_region = ''eastasia'',
        req_voiceName = ''zh-CN-XiaoxiaoNeural'', req_ssml = ssmlText keyed_config ''B'' no_options\<rparr>,
      SynthesizerClose, CreateObjectURL 0, AudioPlay 0] \<and>
   map_option pending (speechSynthesis (fst (run (speak
          (fst (run (speak keyedService ''A'' no_options) [CloudReply (OtherReason ''quota exceeded'')]))
          ''B'' no_options) [CloudReply (AudioCompleted [1, 2, 3])]))) =
     Some [\<lparr>utt_text = ''A'', utt_lang = ''zh-CN'', utt_rate = None, utt_pitch = None,
        utt_volume = None, utt_voice = None\<rparr>] \<and>
   map_option paused (audio (fst (run (speak
          (fst (run (speak keyedService ''A'' no_options) [CloudReply (OtherReason ''quota exceeded'')]))
          ''B'' no_options) [CloudReply (AudioCompleted [1, 2, 3])]))) = Some False"
  by (simp add: eval_defs)

text \<open>
  C6 says that the object URL of a playback is released exactly once on every exit path.
  Each of the three handlers releases it, and nothing keeps them from running for the same
  playback: when the audio cannot be decoded the element fires \<^verbatim>\<open>error\<close> and the promise
  of \<^verbatim>\<open>play()\<close> is rejected, and the URL is released twice. A second playback overwrites
  the two handlers of the element, so that the end of the second playback releases only
  the second URL and no handler of the element knows the first one any more; and \<open>stop\<close>
  releases nothing.
\<close>

theorem object_url_released_twice_or_never:
  "trace (play_rejected (audio_error (playAudioBuffer keyedService [1, 2, 3])) 0 ''NotSupportedError'') =
     [CreateObjectURL 0, AudioPlay 0,
      RevokeObjectURL 0, PlaySettle 0 (RejectedWith AudioFailed),
      RevokeObjectURL 0, PlaySettle 0 (RejectedWith (PlayFailed ''NotSupportedError''))] \<and>
   trace (audio_ended (playAudioBuffer (playAudioBuffer keyedService [1, 2, 3]) [4, 5, 6])) =
     [CreateObjectURL 0, AudioPlay 0, CreateObjectURL 1, AudioPlay 1,
      RevokeObjectURL 1, PlaySettle 1 Fulfilled] \<and>
   map_option onended (audio (playAudioBuffer (playAudioBuffer keyedService [1, 2, 3]) [4, 5, 6])) = Some (Some 1) \<and>
   map_option onerror (audio (playAudioBuffer (playAudioBuffer keyedService [1, 2, 3]) [4, 5, 6])) = Some (Some 1) \<and>
   trace (stop (playAudioBuffer keyedService [1, 2, 3])) = [CreateObjectURL 0, AudioPlay 0, AudioPause, SynthCancel]"
  by (simp add: eval_defs)

end
